theory Spec2Isabelle
  imports Main
begin

section \<open>The Ec2Instance reconciler\<close>

text \<open>
  A shallow embedding of \<^verbatim>\<open>Ec2InstanceReconciler.Reconcile\<close>
  (\<^verbatim>\<open>internal/controller/ec2instance_controller.go\<close>). One invocation reads the
  object from the API server, talks to the cloud provider and writes the object back.
  The API server and the provider are outside the function: their answers are the
  fields of an environment record, and every call the function makes is logged, in
  order, in a list of events.
\<close>

subsection \<open>Data\<close>

text \<open>
  Modelled from the spec: the declaration of the custom resource (package
  \<^verbatim>\<open>api/v1\<close>) is not among the sources. The spec fields are the ones of the data
  model (imageId/amiId, region, keyPair, instanceType, subnet, tags); the status fields
  are the six that \<^verbatim>\<open>Reconcile\<close> assigns.
\<close>

record Ec2InstanceSpec =
  AMIId :: string
  Region :: string
  KeyPair :: string
  InstanceType :: string
  Subnet :: string
  Tags :: "string \<rightharpoonup> string"

record Ec2InstanceStatus =
  InstanceID :: string
  State :: string
  PublicIP :: string
  PrivateIP :: string
  PublicDNS :: string
  PrivateDNS :: string

text \<open>
  Of the object's metadata the function reads and writes the deletion timestamp (a
  pointer to a time, \<open>None\<close> for nil, the instant \<open>0\<close> for the zero time) and the
  list of finalizers.
\<close>

record Ec2Instance =
  DeletionTimestamp :: "int option"
  Finalizers :: "string list"
  Spec :: Ec2InstanceSpec
  Status :: Ec2InstanceStatus

text \<open>
  Modelled from the spec: the type of the value \<^verbatim>\<open>createEc2Instance\<close> returns
  is not among the sources. It is the creation result of the provider contract (id,
  state, addresses), with the six fields read at lines 157-162.
\<close>

record CreatedInstanceInfo =
  ci_InstanceID :: string
  ci_State :: string
  ci_PublicIP :: string
  ci_PrivateIP :: string
  ci_PublicDNS :: string
  ci_PrivateDNS :: string

datatype error = NotFound | OtherError string

text \<open>\<^verbatim>\<open>ctrl.Result\<close>; a \<^verbatim>\<open>time.Duration\<close> counts nanoseconds.\<close>

record Result =
  Requeue :: bool
  RequeueAfter :: int

definition Second :: int where
  "Second = 1000000000"

definition Result_zero :: Result where
  "Result_zero = \<lparr>Requeue = False, RequeueAfter = 0\<rparr>"

definition Ec2Instance_zero :: Ec2Instance where
  "Ec2Instance_zero =
     \<lparr>DeletionTimestamp = None, Finalizers = [],
      Spec = \<lparr>AMIId = [], Region = [], KeyPair = [], InstanceType = [], Subnet = [],
              Tags = Map.empty\<rparr>,
      Status = \<lparr>InstanceID = [], State = [], PublicIP = [], PrivateIP = [],
                PublicDNS = [], PrivateDNS = []\<rparr>\<rparr>"

definition finalizerName :: string where
  "finalizerName = ''ec2instance.compute.cloud.com''"

text \<open>\<^verbatim>\<open>errors.IsNotFound\<close>, \<^verbatim>\<open>(*metav1.Time).IsZero\<close> and
  \<^verbatim>\<open>controllerutil.RemoveFinalizer\<close>, which drops every occurrence of the token.\<close>

definition IsNotFound :: "error \<Rightarrow> bool" where
  "IsNotFound e = (e = NotFound)"

definition IsZero :: "int option \<Rightarrow> bool" where
  "IsZero t = (case t of None \<Rightarrow> True | Some i \<Rightarrow> i = 0)"

definition RemoveFinalizer :: "Ec2Instance \<Rightarrow> string \<Rightarrow> Ec2Instance" where
  "RemoveFinalizer ob f = ob\<lparr>Finalizers := filter (\<lambda>g. g \<noteq> f) (Finalizers ob)\<rparr>"

subsection \<open>The collaborators\<close>

text \<open>
  Modelled from the spec: \<^verbatim>\<open>deleteEc2Instance\<close>, \<^verbatim>\<open>checkEC2InstanceExists\<close> and
  \<^verbatim>\<open>createEc2Instance\<close> are functions of this package that are not among the
  sources. Following the provider contract (\<open>terminate(id) -> () | error\<close>,
  \<open>describe(id) -> {exists, observedState} | error\<close>,
  \<open>create(spec) -> record | error\<close>) they are answers only: they do not change
  the object they are handed. \<open>check_res\<close> gives the three results
  \<^verbatim>\<open>exists, awsInstance, err\<close> of the Go function, the instance reduced to its
  \<^verbatim>\<open>State.Name\<close>; \<open>delete_res\<close> gives the error of \<^verbatim>\<open>deleteEc2Instance\<close>,
  whose other result the caller drops.

  The record holds the answers of the outside world during one invocation. Besides the
  three above, \<open>get_res\<close> is what \<^verbatim>\<open>r.Get\<close> returns, and \<open>update_res\<close> and
  \<open>status_update_res\<close> are the errors (if any) of \<^verbatim>\<open>r.Update\<close> and
  \<^verbatim>\<open>r.Status().Update\<close> for the object submitted; a successful write leaves the
  object in memory as it was submitted.
\<close>

record env =
  get_res :: "error + Ec2Instance"
  update_res :: "Ec2Instance \<Rightarrow> error option"
  status_update_res :: "Ec2Instance \<Rightarrow> error option"
  delete_res :: "Ec2Instance \<Rightarrow> error option"
  check_res :: "string \<Rightarrow> Ec2Instance \<Rightarrow> bool \<times> string \<times> error option"
  create_res :: "Ec2Instance \<Rightarrow> error + CreatedInstanceInfo"

text \<open>The calls of one invocation. A write carries the object submitted and its result.\<close>

datatype event =
    EvGet
  | EvDelete Ec2Instance
  | EvCheck string Ec2Instance
  | EvCreate Ec2Instance
  | EvUpdate Ec2Instance "error option"
  | EvStatusUpdate Ec2Instance "error option"

text \<open>
  What an invocation leaves: the two values returned, the calls made, and the object
  in memory at the return.
\<close>

record outcome =
  result :: Result
  err :: "error option"
  calls :: "event list"
  object :: Ec2Instance

subsection \<open>Reconcile\<close>

text \<open>Lines 66-82: the deletion timestamp is set.\<close>

definition reconcile_deleting :: "env \<Rightarrow> Ec2Instance \<Rightarrow> outcome" where
  "reconcile_deleting e ec2Instance =
     (case delete_res e ec2Instance of
        Some er \<Rightarrow>
          \<lparr>result = \<lparr>Requeue = True, RequeueAfter = 0\<rparr>, err = Some er,
           calls = [EvGet, EvDelete ec2Instance], object = ec2Instance\<rparr>
      | None \<Rightarrow>
          (let ec2' = RemoveFinalizer ec2Instance finalizerName in
           case update_res e ec2' of
             Some er \<Rightarrow>
               \<lparr>result = \<lparr>Requeue = True, RequeueAfter = 0\<rparr>, err = Some er,
                calls = [EvGet, EvDelete ec2Instance, EvUpdate ec2' (Some er)],
                object = ec2'\<rparr>
           | None \<Rightarrow>
               \<lparr>result = Result_zero, err = None,
                calls = [EvGet, EvDelete ec2Instance, EvUpdate ec2' None],
                object = ec2'\<rparr>))"

text \<open>Lines 95-130: the status holds an instance id.\<close>

definition reconcile_existing :: "env \<Rightarrow> Ec2Instance \<Rightarrow> outcome" where
  "reconcile_existing e ec2Instance =
     (let c = EvCheck (InstanceID (Status ec2Instance)) ec2Instance in
      case check_res e (InstanceID (Status ec2Instance)) ec2Instance of
        (exists, awsState, Some er) \<Rightarrow>
          \<lparr>result = Result_zero, err = Some er, calls = [EvGet, c], object = ec2Instance\<rparr>
      | (exists, awsState, None) \<Rightarrow>
          if \<not> exists \<or> awsState = ''terminated'' then
            (let ec2' = ec2Instance\<lparr>Status :=
                          (Status ec2Instance)\<lparr>InstanceID := '''', State := ''Terminated''\<rparr>\<rparr> in
             case status_update_res e ec2' of
               Some er \<Rightarrow>
                 \<lparr>result = Result_zero, err = Some er,
                  calls = [EvGet, c, EvStatusUpdate ec2' (Some er)], object = ec2'\<rparr>
             | None \<Rightarrow>
                 \<lparr>result = \<lparr>Requeue = True, RequeueAfter = 0\<rparr>, err = None,
                  calls = [EvGet, c, EvStatusUpdate ec2' None], object = ec2'\<rparr>)
          else if State (Status ec2Instance) \<noteq> awsState then
            (let ec2' = ec2Instance\<lparr>Status := (Status ec2Instance)\<lparr>State := awsState\<rparr>\<rparr> in
             case status_update_res e ec2' of
               Some er \<Rightarrow>
                 \<lparr>result = Result_zero, err = Some er,
                  calls = [EvGet, c, EvStatusUpdate ec2' (Some er)], object = ec2'\<rparr>
             | None \<Rightarrow>
                 \<lparr>result = \<lparr>Requeue = False, RequeueAfter = 30 * Second\<rparr>, err = None,
                  calls = [EvGet, c, EvStatusUpdate ec2' None], object = ec2'\<rparr>)
          else
            \<lparr>result = \<lparr>Requeue = False, RequeueAfter = 30 * Second\<rparr>, err = None,
             calls = [EvGet, c], object = ec2Instance\<rparr>)"

text \<open>Lines 132-171: no instance id yet.\<close>

definition reconcile_provisioning :: "env \<Rightarrow> Ec2Instance \<Rightarrow> outcome" where
  "reconcile_provisioning e ec2Instance =
     (let ec2' = ec2Instance\<lparr>Finalizers := Finalizers ec2Instance @ [finalizerName]\<rparr> in
      case update_res e ec2' of
        Some er \<Rightarrow>
          \<lparr>result = \<lparr>Requeue = True, RequeueAfter = 0\<rparr>, err = Some er,
           calls = [EvGet, EvUpdate ec2' (Some er)], object = ec2'\<rparr>
      | None \<Rightarrow>
          (case create_res e ec2' of
             Inl er \<Rightarrow>
               \<lparr>result = Result_zero, err = Some er,
                calls = [EvGet, EvUpdate ec2' None, EvCreate ec2'], object = ec2'\<rparr>
           | Inr createdInstanceInfo \<Rightarrow>
               (let ec2'' = ec2'\<lparr>Status :=
                              \<lparr>InstanceID = ci_InstanceID createdInstanceInfo,
                               State = ci_State createdInstanceInfo,
                               PublicIP = ci_PublicIP createdInstanceInfo,
                               PrivateIP = ci_PrivateIP createdInstanceInfo,
                               PublicDNS = ci_PublicDNS createdInstanceInfo,
                               PrivateDNS = ci_PrivateDNS createdInstanceInfo\<rparr>\<rparr> in
                case status_update_res e ec2'' of
                  Some er \<Rightarrow>
                    \<lparr>result = Result_zero, err = Some er,
                     calls = [EvGet, EvUpdate ec2' None, EvCreate ec2',
                              EvStatusUpdate ec2'' (Some er)],
                     object = ec2''\<rparr>
                | None \<Rightarrow>
                    \<lparr>result = \<lparr>Requeue = False, RequeueAfter = 1 * Second\<rparr>, err = None,
                     calls = [EvGet, EvUpdate ec2' None, EvCreate ec2',
                              EvStatusUpdate ec2'' None],
                     object = ec2''\<rparr>)))"

text \<open>Lines 48-172.\<close>

definition Reconcile :: "env \<Rightarrow> outcome" where
  "Reconcile e =
     (case get_res e of
        Inl er \<Rightarrow>
          if IsNotFound er then
            \<lparr>result = Result_zero, err = None, calls = [EvGet], object = Ec2Instance_zero\<rparr>
          else
            \<lparr>result = Result_zero, err = Some er, calls = [EvGet],
             object = Ec2Instance_zero\<rparr>
      | Inr ec2Instance \<Rightarrow>
          if \<not> IsZero (DeletionTimestamp ec2Instance) then reconcile_deleting e ec2Instance
          else if InstanceID (Status ec2Instance) \<noteq> '''' then
            reconcile_existing e ec2Instance
          else reconcile_provisioning e ec2Instance)"


subsection \<open>Reading the log of calls\<close>

fun is_write :: "event \<Rightarrow> bool" where
  "is_write (EvUpdate ob r) = True"
| "is_write (EvStatusUpdate ob r) = True"
| "is_write ev = False"

definition writes :: "event list \<Rightarrow> event list" where
  "writes tr = filter is_write tr"

fun submitted :: "event \<Rightarrow> Ec2Instance list" where
  "submitted EvGet = []"
| "submitted (EvDelete ob) = [ob]"
| "submitted (EvCheck i ob) = [ob]"
| "submitted (EvCreate ob) = [ob]"
| "submitted (EvUpdate ob r) = [ob]"
| "submitted (EvStatusUpdate ob r) = [ob]"

subsection \<open>Scenarios\<close>

definition scenario_spec :: Ec2InstanceSpec where
  "scenario_spec =
     \<lparr>AMIId = ''ami-019715e023234'', Region = ''ap-south-1'', KeyPair = ''myaws_keypair'',
      InstanceType = ''t2.large'', Subnet = ''subnet-0d17e7ca2343455'',
      Tags = [''Name'' \<mapsto> ''my-demo-server'']\<rparr>"

definition scenario_info :: CreatedInstanceInfo where
  "scenario_info =
     \<lparr>ci_InstanceID = ''i-123'', ci_State = ''pending'', ci_PublicIP = ''13.0.0.7'',
      ci_PrivateIP = ''10.0.0.7'', ci_PublicDNS = ''ec2-13-0-0-7.example'',
      ci_PrivateDNS = ''ip-10-0-0-7.internal''\<rparr>"

definition fresh_object :: Ec2Instance where
  "fresh_object = Ec2Instance_zero\<lparr>Spec := scenario_spec\<rparr>"

definition launched_object :: "string \<Rightarrow> Ec2Instance" where
  "launched_object st =
     \<lparr>DeletionTimestamp = None, Finalizers = [finalizerName], Spec = scenario_spec,
      Status = \<lparr>InstanceID = ''i-123'', State = st, PublicIP = ''13.0.0.7'',
                PrivateIP = ''10.0.0.7'', PublicDNS = ''ec2-13-0-0-7.example'',
                PrivateDNS = ''ip-10-0-0-7.internal''\<rparr>\<rparr>"

definition calm :: "Ec2Instance \<Rightarrow> bool \<Rightarrow> string \<Rightarrow> env" where
  "calm ob ex st =
     \<lparr>get_res = Inr ob, update_res = (\<lambda>_. None), status_update_res = (\<lambda>_. None),
      delete_res = (\<lambda>_. None), check_res = (\<lambda>_ _. (ex, st, None)),
      create_res = (\<lambda>_. Inr scenario_info)\<rparr>"

definition scenario_A :: env where
  "scenario_A = calm fresh_object False ''''"

definition scenario_B :: env where
  "scenario_B = calm (launched_object ''pending'') True ''running''"

definition scenario_C :: env where
  "scenario_C = calm (launched_object ''running'') False ''''"

definition scenario_D :: env where
  "scenario_D =
     calm ((launched_object ''running'')\<lparr>DeletionTimestamp := Some 1761868800\<rparr>) True ''running''"

definition scenario_steady :: env where
  "scenario_steady = calm (launched_object ''running'') True ''running''"

definition scenario_terminated :: env where
  "scenario_terminated = calm (launched_object ''terminated'') True ''terminated''"

section \<open>Properties\<close>

lemmas scenario_defs =
  scenario_spec_def scenario_info_def fresh_object_def launched_object_def calm_def
  scenario_A_def scenario_B_def scenario_C_def scenario_D_def scenario_steady_def
  scenario_terminated_def
  Ec2Instance_zero_def Result_zero_def finalizerName_def IsZero_def IsNotFound_def
  RemoveFinalizer_def Second_def writes_def

lemmas reconcile_defs =
  Reconcile_def reconcile_deleting_def reconcile_existing_def reconcile_provisioning_def
  Let_def

subsection \<open>The three phases\<close>

lemma Reconcile_deleting:
  "get_res e = Inr ob \<Longrightarrow> \<not> IsZero (DeletionTimestamp ob) \<Longrightarrow>
   Reconcile e = reconcile_deleting e ob"
  by (simp add: Reconcile_def)

lemma Reconcile_existing:
  "get_res e = Inr ob \<Longrightarrow> IsZero (DeletionTimestamp ob) \<Longrightarrow> InstanceID (Status ob) \<noteq> '''' \<Longrightarrow>
   Reconcile e = reconcile_existing e ob"
  by (simp add: Reconcile_def)

lemma Reconcile_provisioning:
  "get_res e = Inr ob \<Longrightarrow> IsZero (DeletionTimestamp ob) \<Longrightarrow> InstanceID (Status ob) = '''' \<Longrightarrow>
   Reconcile e = reconcile_provisioning e ob"
  by (simp add: Reconcile_def)

subsection \<open>Drift\<close>

text \<open>
  The drift path, for every environment. The object holds an instance id and is not
  being deleted, and the provider answers that the instance does not exist or is
  \<open>terminated\<close>. The invocation empties the instance id, assigns the state the
  literal of line 110, and submits that object in one status write, its only write.
  When the write succeeds it returns \<open>Requeue = true\<close> with no error; when the write
  fails it returns the write's error with the empty result.
\<close>

lemma drift_reset:
  assumes "get_res e = Inr ob" and "IsZero (DeletionTimestamp ob)"
    and "InstanceID (Status ob) \<noteq> ''''"
    and "check_res e (InstanceID (Status ob)) ob = (ex, st, None)"
    and "\<not> ex \<or> st = ''terminated''"
    and "ob' = ob\<lparr>Status := (Status ob)\<lparr>InstanceID := '''', State := ''Terminated''\<rparr>\<rparr>"
  shows "object (Reconcile e) = ob' \<and>
         calls (Reconcile e) =
           [EvGet, EvCheck (InstanceID (Status ob)) ob,
            EvStatusUpdate ob' (status_update_res e ob')] \<and>
         (status_update_res e ob' = None \<longrightarrow>
            result (Reconcile e) = \<lparr>Requeue = True, RequeueAfter = 0\<rparr> \<and>
            err (Reconcile e) = None) \<and>
         (\<forall>x. status_update_res e ob' = Some x \<longrightarrow>
            result (Reconcile e) = Result_zero \<and> err (Reconcile e) = Some x)"
proof -
  have "Reconcile e = reconcile_existing e ob"
    using assms(1-3) by (rule Reconcile_existing)
  then show ?thesis
    using assms(4-6) by (auto simp: reconcile_existing_def Let_def split: option.splits)
qed

text \<open>
  C1. Scenario C: the object holds \<open>i-123\<close>, stored as \<open>running\<close>, no deletion is
  requested, and the provider reports the instance as not found. The invocation empties
  the instance id, submits the status in one write, which succeeds, and returns
  \<open>Requeue = true\<close> with no error, as the claim says. The state it stores and submits,
  however, is the string \<open>Terminated\<close> and not \<open>terminated\<close>, the provider's name
  for that state, which line 104 tests for and which the other paths (lines 122 and
  158) store as the provider gives it.
\<close>

theorem drift_state_at_scenario_C:
  "get_res scenario_C = Inr (launched_object ''running'') \<and>
   InstanceID (Status (launched_object ''running'')) \<noteq> '''' \<and>
   IsZero (DeletionTimestamp (launched_object ''running'')) \<and>
   check_res scenario_C ''i-123'' (launched_object ''running'') = (False, '''', None) \<and>
   InstanceID (Status (object (Reconcile scenario_C))) = '''' \<and>
   calls (Reconcile scenario_C) =
     [EvGet, EvCheck ''i-123'' (launched_object ''running''),
      EvStatusUpdate (object (Reconcile scenario_C)) None] \<and>
   result (Reconcile scenario_C) = \<lparr>Requeue = True, RequeueAfter = 0\<rparr> \<and>
   err (Reconcile scenario_C) = None \<and>
   State (Status (object (Reconcile scenario_C))) = ''Terminated'' \<and>
   State (Status (object (Reconcile scenario_C))) \<noteq> ''terminated''"
  by (simp add: reconcile_defs scenario_defs)

subsection \<open>State synchronisation\<close>

text \<open>
  C3, as amended. The object holds an instance id and is not being deleted, describe
  succeeds and reports the instance as existing in a state other than \<open>terminated\<close>,
  and that state differs from the stored one. The invocation overwrites the stored state
  with the reported one and submits it in one status write. When the write succeeds it
  returns a requeue after 30 seconds, the same interval as in the steady state; when
  the write fails it returns the write's error with the empty result.
\<close>

theorem state_sync:
  assumes "get_res e = Inr ob" and "IsZero (DeletionTimestamp ob)"
    and "InstanceID (Status ob) \<noteq> ''''"
    and "check_res e (InstanceID (Status ob)) ob = (True, st, None)"
    and "st \<noteq> ''terminated''"
    and "State (Status ob) \<noteq> st"
    and "ob' = ob\<lparr>Status := (Status ob)\<lparr>State := st\<rparr>\<rparr>"
  shows "object (Reconcile e) = ob' \<and>
         calls (Reconcile e) =
           [EvGet, EvCheck (InstanceID (Status ob)) ob,
            EvStatusUpdate ob' (status_update_res e ob')] \<and>
         (status_update_res e ob' = None \<longrightarrow>
            result (Reconcile e) = \<lparr>Requeue = False, RequeueAfter = 30 * Second\<rparr> \<and>
            err (Reconcile e) = None) \<and>
         (\<forall>x. status_update_res e ob' = Some x \<longrightarrow>
            result (Reconcile e) = Result_zero \<and> err (Reconcile e) = Some x)"
proof -
  have "Reconcile e = reconcile_existing e ob"
    using assms(1-3) by (rule Reconcile_existing)
  then show ?thesis
    using assms(4-7) by (auto simp: reconcile_existing_def Let_def split: option.splits)
qed

text \<open>Scenario B: \<open>i-123\<close> is stored as \<open>pending\<close> and the provider reports \<open>running\<close>.\<close>

theorem state_sync_witness:
  "get_res scenario_B = Inr (launched_object ''pending'') \<and>
   IsZero (DeletionTimestamp (launched_object ''pending'')) \<and>
   InstanceID (Status (launched_object ''pending'')) = ''i-123'' \<and>
   check_res scenario_B ''i-123'' (launched_object ''pending'') = (True, ''running'', None) \<and>
   object (Reconcile scenario_B) = launched_object ''running'' \<and>
   calls (Reconcile scenario_B) =
     [EvGet, EvCheck ''i-123'' (launched_object ''pending''),
      EvStatusUpdate (launched_object ''running'') None] \<and>
   result (Reconcile scenario_B) = \<lparr>Requeue = False, RequeueAfter = 30000000000\<rparr> \<and>
   err (Reconcile scenario_B) = None"
  using state_sync [of scenario_B "launched_object ''pending''" "''running''"
      "launched_object ''running''"]
  by (simp add: scenario_defs)

text \<open>
  The claim as stated fails in scenario B: the delay returned after the state has been
  overwritten is the 30 seconds of the steady state, not a shorter one.
\<close>

theorem sync_requeue_counterexample:
  "get_res scenario_B = Inr (launched_object ''pending'') \<and>
   InstanceID (Status (launched_object ''pending'')) \<noteq> '''' \<and>
   IsZero (DeletionTimestamp (launched_object ''pending'')) \<and>
   check_res scenario_B ''i-123'' (launched_object ''pending'') = (True, ''running'', None) \<and>
   State (Status (launched_object ''pending'')) \<noteq> ''running'' \<and>
   status_update_res scenario_B (launched_object ''running'') = None \<and>
   State (Status (object (Reconcile scenario_B))) = ''running'' \<and>
   RequeueAfter (result (Reconcile scenario_B)) = 30 * Second \<and>
   RequeueAfter (result (Reconcile scenario_B)) =
     RequeueAfter (result (Reconcile scenario_steady))"
  by (simp add: reconcile_defs scenario_defs)

subsection \<open>Steady state\<close>

text \<open>
  C8, as amended. The object holds an instance id and is not being deleted, describe
  succeeds and reports the instance as existing in a state other than \<open>terminated\<close>,
  and that state equals the stored one. The invocation makes no write (its calls are
  the read and the describe call), leaves the object as read and returns a requeue after
  30 seconds. Hence a second invocation that reads the same object and gets the same
  answers from the provider makes no write either.
\<close>

theorem steady_state_no_write:
  assumes "get_res e = Inr ob" and "IsZero (DeletionTimestamp ob)"
    and "InstanceID (Status ob) \<noteq> ''''"
    and "check_res e (InstanceID (Status ob)) ob = (True, st, None)"
    and "st \<noteq> ''terminated''"
    and "State (Status ob) = st"
  shows "calls (Reconcile e) = [EvGet, EvCheck (InstanceID (Status ob)) ob] \<and>
         writes (calls (Reconcile e)) = [] \<and>
         object (Reconcile e) = ob \<and>
         result (Reconcile e) = \<lparr>Requeue = False, RequeueAfter = 30 * Second\<rparr> \<and>
         err (Reconcile e) = None \<and>
         (\<forall>e2. get_res e2 = Inr (object (Reconcile e)) \<and> check_res e2 = check_res e \<longrightarrow>
            writes (calls (Reconcile e2)) = [] \<and>
            result (Reconcile e2) = \<lparr>Requeue = False, RequeueAfter = 30 * Second\<rparr>)"
proof -
  have steady: "reconcile_existing e2 ob =
      \<lparr>result = \<lparr>Requeue = False, RequeueAfter = 30 * Second\<rparr>, err = None,
       calls = [EvGet, EvCheck (InstanceID (Status ob)) ob], object = ob\<rparr>"
    if "check_res e2 = check_res e" for e2
    using that assms(4-6) by (simp add: reconcile_existing_def Let_def)
  have run: "Reconcile e2 = reconcile_existing e2 ob" if "get_res e2 = Inr ob" for e2
    using that assms(2,3) by (rule Reconcile_existing)
  have first: "Reconcile e =
      \<lparr>result = \<lparr>Requeue = False, RequeueAfter = 30 * Second\<rparr>, err = None,
       calls = [EvGet, EvCheck (InstanceID (Status ob)) ob], object = ob\<rparr>"
    using run [OF assms(1)] steady [of e] by simp
  have second: "writes (calls (Reconcile e2)) = [] \<and>
      result (Reconcile e2) = \<lparr>Requeue = False, RequeueAfter = 30 * Second\<rparr>"
    if "get_res e2 = Inr ob" and "check_res e2 = check_res e" for e2
    using run [OF that(1)] steady [OF that(2)] by (simp add: writes_def)
  show ?thesis
    using first second by (simp add: writes_def)
qed

text \<open>The steady scenario: \<open>i-123\<close> is stored as \<open>running\<close> and reported as \<open>running\<close>.\<close>

theorem steady_state_no_write_witness:
  "get_res scenario_steady = Inr (launched_object ''running'') \<and>
   IsZero (DeletionTimestamp (launched_object ''running'')) \<and>
   InstanceID (Status (launched_object ''running'')) = ''i-123'' \<and>
   check_res scenario_steady ''i-123'' (launched_object ''running'') = (True, ''running'', None) \<and>
   State (Status (launched_object ''running'')) = ''running'' \<and>
   writes (calls (Reconcile scenario_steady)) = [] \<and>
   object (Reconcile scenario_steady) = launched_object ''running'' \<and>
   result (Reconcile scenario_steady) = \<lparr>Requeue = False, RequeueAfter = 30000000000\<rparr> \<and>
   writes (calls (Reconcile (calm (object (Reconcile scenario_steady)) True ''running''))) = []"
proof -
  have again: "get_res (calm (launched_object ''running'') True ''running'') =
                 Inr (launched_object ''running'') \<and>
               check_res (calm (launched_object ''running'') True ''running'') =
                 check_res scenario_steady"
    by (simp add: scenario_defs)
  show ?thesis
    using again steady_state_no_write [of scenario_steady "launched_object ''running''" "''running''"]
    by (simp add: scenario_defs)
qed

text \<open>
  The claim as stated fails when the state stored and the state reported are both
  \<open>terminated\<close>: report and stored state are equal, and the invocation writes the
  status (the drift reset).
\<close>

theorem equal_terminated_states_counterexample:
  "get_res scenario_terminated = Inr (launched_object ''terminated'') \<and>
   InstanceID (Status (launched_object ''terminated'')) \<noteq> '''' \<and>
   IsZero (DeletionTimestamp (launched_object ''terminated'')) \<and>
   check_res scenario_terminated ''i-123'' (launched_object ''terminated'') =
     (True, ''terminated'', None) \<and>
   State (Status (launched_object ''terminated'')) = ''terminated'' \<and>
   writes (calls (Reconcile scenario_terminated)) \<noteq> [] \<and>
   RequeueAfter (result (Reconcile scenario_terminated)) \<noteq> 30 * Second"
  by (simp add: reconcile_defs scenario_defs)

subsection \<open>Provisioning\<close>

text \<open>
  C2, as amended. For an object with no instance id and no deletion requested, when the
  marker write, the create call and the status write all succeed, one single invocation
  does everything, in this order: it appends the finalizer and writes the object, calls
  create on it, copies the instance id, the state and the four addresses of the created
  instance into the status, writes the status, and returns a requeue after one second.
\<close>

theorem provisioning_in_one_invocation:
  assumes "get_res e = Inr ob" and "IsZero (DeletionTimestamp ob)"
    and "InstanceID (Status ob) = ''''"
    and "ob' = ob\<lparr>Finalizers := Finalizers ob @ [finalizerName]\<rparr>"
    and "update_res e ob' = None"
    and "create_res e ob' = Inr info"
    and "ob'' = ob'\<lparr>Status :=
                  \<lparr>InstanceID = ci_InstanceID info, State = ci_State info,
                   PublicIP = ci_PublicIP info, PrivateIP = ci_PrivateIP info,
                   PublicDNS = ci_PublicDNS info, PrivateDNS = ci_PrivateDNS info\<rparr>\<rparr>"
    and "status_update_res e ob'' = None"
  shows "calls (Reconcile e) =
           [EvGet, EvUpdate ob' None, EvCreate ob', EvStatusUpdate ob'' None] \<and>
         object (Reconcile e) = ob'' \<and>
         result (Reconcile e) = \<lparr>Requeue = False, RequeueAfter = 1 * Second\<rparr> \<and>
         err (Reconcile e) = None"
proof -
  have "Reconcile e = reconcile_provisioning e ob"
    using assms(1-3) by (rule Reconcile_provisioning)
  then show ?thesis
    using assms(4-8) by (simp add: reconcile_provisioning_def Let_def)
qed

text \<open>Scenario A: a fresh object, and a provider that launches \<open>i-123\<close>.\<close>

theorem provisioning_in_one_invocation_witness:
  "get_res scenario_A = Inr fresh_object \<and>
   IsZero (DeletionTimestamp fresh_object) \<and>
   InstanceID (Status fresh_object) = '''' \<and>
   update_res scenario_A (fresh_object\<lparr>Finalizers := [finalizerName]\<rparr>) = None \<and>
   create_res scenario_A (fresh_object\<lparr>Finalizers := [finalizerName]\<rparr>) = Inr scenario_info \<and>
   calls (Reconcile scenario_A) =
     [EvGet,
      EvUpdate (fresh_object\<lparr>Finalizers := [finalizerName]\<rparr>) None,
      EvCreate (fresh_object\<lparr>Finalizers := [finalizerName]\<rparr>),
      EvStatusUpdate ((launched_object ''pending'')) None] \<and>
   result (Reconcile scenario_A) = \<lparr>Requeue = False, RequeueAfter = 1000000000\<rparr> \<and>
   err (Reconcile scenario_A) = None"
  using provisioning_in_one_invocation [of scenario_A fresh_object
      "fresh_object\<lparr>Finalizers := [finalizerName]\<rparr>" scenario_info
      "launched_object ''pending''"]
  by (simp add: scenario_defs)

text \<open>
  The claim as stated fails in scenario A: the first invocation on the fresh object does
  not stop after the marker write, it goes on to call create and to write the status.
\<close>

theorem first_invocation_creates_counterexample:
  "get_res scenario_A = Inr fresh_object \<and>
   Status fresh_object = Status Ec2Instance_zero \<and>
   Finalizers fresh_object = [] \<and>
   IsZero (DeletionTimestamp fresh_object) \<and>
   calls (Reconcile scenario_A) \<noteq>
     [EvGet, EvUpdate (fresh_object\<lparr>Finalizers := [finalizerName]\<rparr>) None] \<and>
   EvCreate (fresh_object\<lparr>Finalizers := [finalizerName]\<rparr>) \<in> set (calls (Reconcile scenario_A)) \<and>
   InstanceID (Status (object (Reconcile scenario_A))) = ''i-123''"
  by (simp add: reconcile_defs scenario_defs)

text \<open>
  C4. During Provisioning (no instance id, no deletion requested) the first call after
  the read is the write of the object with the finalizer appended; wherever create
  appears among the calls, a successful write of an object carrying the finalizer comes
  before it; and when that write fails, the invocation returns the write's error, with
  \<open>Requeue = true\<close>, and create is not called at all.
\<close>

theorem marker_persisted_before_create:
  assumes "get_res e = Inr ob" and "IsZero (DeletionTimestamp ob)"
    and "InstanceID (Status ob) = ''''"
    and "ob' = ob\<lparr>Finalizers := Finalizers ob @ [finalizerName]\<rparr>"
  shows "(\<exists>rest. calls (Reconcile e) = EvGet # EvUpdate ob' (update_res e ob') # rest) \<and>
         (\<forall>pre c post. calls (Reconcile e) = pre @ EvCreate c # post \<longrightarrow>
            (\<exists>w. EvUpdate w None \<in> set pre \<and> finalizerName \<in> set (Finalizers w))) \<and>
         (\<forall>x. update_res e ob' = Some x \<longrightarrow>
            err (Reconcile e) = Some x \<and> Requeue (result (Reconcile e)) \<and>
            (\<forall>c. EvCreate c \<notin> set (calls (Reconcile e))))"
proof -
  have R: "Reconcile e = reconcile_provisioning e ob"
    using assms(1-3) by (rule Reconcile_provisioning)
  have fin: "finalizerName \<in> set (Finalizers ob')"
    using assms(4) by simp
  show ?thesis
  proof (cases "update_res e ob'")
    case (Some x)
    then show ?thesis
      using assms(4) by (simp add: R reconcile_provisioning_def Let_def Cons_eq_append_conv)
  next
    case None
    show ?thesis
    proof (cases "create_res e ob'")
      case (Inl x)
      then show ?thesis
        using None assms(4) fin
        by (auto simp: R reconcile_provisioning_def Let_def Cons_eq_append_conv)
    next
      case (Inr info)
      then show ?thesis
        using None assms(4) fin
        by (auto simp: R reconcile_provisioning_def Let_def Cons_eq_append_conv
            split: option.splits)
    qed
  qed
qed

text \<open>
  Scenario A, where the marker write succeeds and create follows it, and the same
  scenario with a store that refuses the marker write.
\<close>

theorem marker_persisted_before_create_witness:
  "get_res scenario_A = Inr fresh_object \<and>
   IsZero (DeletionTimestamp fresh_object) \<and>
   InstanceID (Status fresh_object) = '''' \<and>
   calls (Reconcile scenario_A) =
     [EvGet, EvUpdate (fresh_object\<lparr>Finalizers := [finalizerName]\<rparr>) None] @
     EvCreate (fresh_object\<lparr>Finalizers := [finalizerName]\<rparr>) #
     [EvStatusUpdate (launched_object ''pending'') None] \<and>
   (\<exists>w. EvUpdate w None \<in> set [EvGet, EvUpdate (fresh_object\<lparr>Finalizers := [finalizerName]\<rparr>) None] \<and>
        finalizerName \<in> set (Finalizers w)) \<and>
   err (Reconcile (scenario_A\<lparr>update_res := \<lambda>_. Some (OtherError ''conflict'')\<rparr>)) =
     Some (OtherError ''conflict'') \<and>
   Requeue (result (Reconcile (scenario_A\<lparr>update_res := \<lambda>_. Some (OtherError ''conflict'')\<rparr>))) \<and>
   (\<forall>c. EvCreate c \<notin>
      set (calls (Reconcile (scenario_A\<lparr>update_res := \<lambda>_. Some (OtherError ''conflict'')\<rparr>))))"
proof -
  have read: "get_res scenario_A = Inr fresh_object \<and>
      IsZero (DeletionTimestamp fresh_object) \<and> InstanceID (Status fresh_object) = ''''"
    by (simp add: scenario_defs)
  have run: "calls (Reconcile scenario_A) =
      [EvGet, EvUpdate (fresh_object\<lparr>Finalizers := [finalizerName]\<rparr>) None] @
      EvCreate (fresh_object\<lparr>Finalizers := [finalizerName]\<rparr>) #
      [EvStatusUpdate (launched_object ''pending'') None]"
    by (simp add: reconcile_defs scenario_defs)
  have "\<forall>pre c post. calls (Reconcile scenario_A) = pre @ EvCreate c # post \<longrightarrow>
      (\<exists>w. EvUpdate w None \<in> set pre \<and> finalizerName \<in> set (Finalizers w))"
    using marker_persisted_before_create [of scenario_A fresh_object
        "fresh_object\<lparr>Finalizers := [finalizerName]\<rparr>"]
    by (simp add: scenario_defs)
  then have before: "\<exists>w.
      EvUpdate w None \<in> set [EvGet, EvUpdate (fresh_object\<lparr>Finalizers := [finalizerName]\<rparr>) None] \<and>
      finalizerName \<in> set (Finalizers w)"
    using run by blast
  have refused: "err (Reconcile (scenario_A\<lparr>update_res := \<lambda>_. Some (OtherError ''conflict'')\<rparr>)) =
      Some (OtherError ''conflict'') \<and>
    Requeue (result (Reconcile (scenario_A\<lparr>update_res := \<lambda>_. Some (OtherError ''conflict'')\<rparr>))) \<and>
    (\<forall>c. EvCreate c \<notin>
       set (calls (Reconcile (scenario_A\<lparr>update_res := \<lambda>_. Some (OtherError ''conflict'')\<rparr>))))"
    using marker_persisted_before_create
        [of "scenario_A\<lparr>update_res := \<lambda>_. Some (OtherError ''conflict'')\<rparr>" fresh_object
          "fresh_object\<lparr>Finalizers := [finalizerName]\<rparr>"]
    by (simp add: scenario_defs)
  show ?thesis
    using read run before refused by simp
qed

text \<open>
  C7. During Provisioning, when create is called (the marker write has succeeded) and
  fails, the invocation returns the create error; no status write is among its calls,
  the one write it made submitted the status as read, and the status of the object in
  memory is the one read: the instance id is still empty.
\<close>

theorem create_failure_writes_no_status:
  assumes "get_res e = Inr ob" and "IsZero (DeletionTimestamp ob)"
    and "InstanceID (Status ob) = ''''"
    and "ob' = ob\<lparr>Finalizers := Finalizers ob @ [finalizerName]\<rparr>"
    and "update_res e ob' = None"
    and "create_res e ob' = Inl x"
  shows "err (Reconcile e) = Some x \<and>
         result (Reconcile e) = Result_zero \<and>
         calls (Reconcile e) = [EvGet, EvUpdate ob' None, EvCreate ob'] \<and>
         (\<forall>w r. EvStatusUpdate w r \<notin> set (calls (Reconcile e))) \<and>
         Status ob' = Status ob \<and>
         Status (object (Reconcile e)) = Status ob \<and>
         InstanceID (Status (object (Reconcile e))) = ''''"
proof -
  have "Reconcile e = reconcile_provisioning e ob"
    using assms(1-3) by (rule Reconcile_provisioning)
  then show ?thesis
    using assms(3-6) by (simp add: reconcile_provisioning_def Let_def)
qed

text \<open>Scenario A with a provider that refuses to launch.\<close>

theorem create_failure_writes_no_status_witness:
  "get_res (scenario_A\<lparr>create_res := \<lambda>_. Inl (OtherError ''quota'')\<rparr>) = Inr fresh_object \<and>
   IsZero (DeletionTimestamp fresh_object) \<and>
   InstanceID (Status fresh_object) = '''' \<and>
   update_res (scenario_A\<lparr>create_res := \<lambda>_. Inl (OtherError ''quota'')\<rparr>)
     (fresh_object\<lparr>Finalizers := [finalizerName]\<rparr>) = None \<and>
   err (Reconcile (scenario_A\<lparr>create_res := \<lambda>_. Inl (OtherError ''quota'')\<rparr>)) =
     Some (OtherError ''quota'') \<and>
   (\<forall>w r. EvStatusUpdate w r \<notin>
      set (calls (Reconcile (scenario_A\<lparr>create_res := \<lambda>_. Inl (OtherError ''quota'')\<rparr>)))) \<and>
   Status (object (Reconcile (scenario_A\<lparr>create_res := \<lambda>_. Inl (OtherError ''quota'')\<rparr>))) =
     Status Ec2Instance_zero"
  using create_failure_writes_no_status
      [of "scenario_A\<lparr>create_res := \<lambda>_. Inl (OtherError ''quota'')\<rparr>" fresh_object
        "fresh_object\<lparr>Finalizers := [finalizerName]\<rparr>" "OtherError ''quota''"]
  by (simp add: scenario_defs)

text \<open>
  C10. The Provisioning path appends the finalizer without looking for it. For an
  object with no instance id, no deletion requested and the finalizer already in its
  list, the list submitted to the marker write, and left in the object in memory, is
  the list read followed by the finalizer, so it holds the finalizer once more than the
  list read: at least twice.
\<close>

theorem finalizer_appended_unchecked:
  assumes "get_res e = Inr ob" and "IsZero (DeletionTimestamp ob)"
    and "InstanceID (Status ob) = ''''"
    and "finalizerName \<in> set (Finalizers ob)"
  shows "(\<exists>w rest. calls (Reconcile e) = EvGet # EvUpdate w (update_res e w) # rest \<and>
            Finalizers w = Finalizers ob @ [finalizerName]) \<and>
         Finalizers (object (Reconcile e)) = Finalizers ob @ [finalizerName] \<and>
         count_list (Finalizers (object (Reconcile e))) finalizerName =
           count_list (Finalizers ob) finalizerName + 1 \<and>
         2 \<le> count_list (Finalizers (object (Reconcile e))) finalizerName"
proof -
  have R: "Reconcile e = reconcile_provisioning e ob"
    using assms(1-3) by (rule Reconcile_provisioning)
  have fin: "Finalizers (object (reconcile_provisioning e ob)) =
      Finalizers ob @ [finalizerName]"
    by (simp add: reconcile_provisioning_def Let_def split: option.splits sum.splits)
  have first: "\<exists>w rest. calls (reconcile_provisioning e ob) =
        EvGet # EvUpdate w (update_res e w) # rest \<and>
      Finalizers w = Finalizers ob @ [finalizerName]"
    by (simp add: reconcile_provisioning_def Let_def split: option.splits sum.splits)
  have "count_list (Finalizers ob) finalizerName \<noteq> 0"
    using assms(4) by (simp add: count_list_0_iff)
  then have "1 \<le> count_list (Finalizers ob) finalizerName"
    by simp
  then show ?thesis
    using first fin by (simp add: R)
qed

text \<open>
  Scenario C followed by a second invocation: the drift reset leaves the finalizer of
  \<open>i-123\<close> in place and empties the instance id; the next invocation reads that
  object, enters Provisioning and submits the finalizer twice.
\<close>

theorem finalizer_appended_unchecked_witness:
  "Finalizers (object (Reconcile scenario_C)) = [finalizerName] \<and>
   InstanceID (Status (object (Reconcile scenario_C))) = '''' \<and>
   IsZero (DeletionTimestamp (object (Reconcile scenario_C))) \<and>
   get_res (calm (object (Reconcile scenario_C)) False '''') =
     Inr (object (Reconcile scenario_C)) \<and>
   Finalizers (object (Reconcile (calm (object (Reconcile scenario_C)) False ''''))) =
     [finalizerName, finalizerName] \<and>
   count_list
     (Finalizers (object (Reconcile (calm (object (Reconcile scenario_C)) False ''''))))
     finalizerName = 2"
proof -
  have after_drift: "object (Reconcile scenario_C) =
      (launched_object ''running'')\<lparr>Status :=
         (Status (launched_object ''running''))\<lparr>InstanceID := '''', State := ''Terminated''\<rparr>\<rparr>"
    by (simp add: reconcile_defs scenario_defs)
  show ?thesis
    using finalizer_appended_unchecked
      [of "calm (object (Reconcile scenario_C)) False ''''" "object (Reconcile scenario_C)"]
    unfolding after_drift
    by (simp add: scenario_defs)
qed

text \<open>
  C5. In any invocation, whatever the collaborators answer: if create is called, then
  the object read has an empty instance id and no deletion requested; and if the object
  read has a non-empty instance id, create is not among the calls.
\<close>

theorem create_only_without_instance_id:
  "((\<exists>c. EvCreate c \<in> set (calls (Reconcile e))) \<longrightarrow>
      (\<exists>ob. get_res e = Inr ob \<and> InstanceID (Status ob) = '''' \<and>
            IsZero (DeletionTimestamp ob))) \<and>
   (\<forall>ob. get_res e = Inr ob \<and> InstanceID (Status ob) \<noteq> '''' \<longrightarrow>
      (\<forall>c. EvCreate c \<notin> set (calls (Reconcile e))))"
proof (cases "get_res e")
  case (Inl er)
  then show ?thesis
    by (simp add: Reconcile_def)
next
  case (Inr ob)
  have del: "\<forall>c. EvCreate c \<notin> set (calls (reconcile_deleting e ob))"
    by (simp add: reconcile_deleting_def Let_def split: option.splits)
  have ex: "\<forall>c. EvCreate c \<notin> set (calls (reconcile_existing e ob))"
    by (simp add: reconcile_existing_def Let_def split: option.splits prod.splits)
  show ?thesis
    using Inr del ex by (simp add: Reconcile_def)
qed

text \<open>
  Scenario A, where create is called, and scenario B, where the object holds \<open>i-123\<close>.
\<close>

theorem create_only_without_instance_id_witness:
  "EvCreate (fresh_object\<lparr>Finalizers := [finalizerName]\<rparr>) \<in> set (calls (Reconcile scenario_A)) \<and>
   (\<exists>ob. get_res scenario_A = Inr ob \<and> InstanceID (Status ob) = '''' \<and>
         IsZero (DeletionTimestamp ob)) \<and>
   get_res scenario_B = Inr (launched_object ''pending'') \<and>
   InstanceID (Status (launched_object ''pending'')) \<noteq> '''' \<and>
   (\<forall>c. EvCreate c \<notin> set (calls (Reconcile scenario_B)))"
proof -
  have called: "EvCreate (fresh_object\<lparr>Finalizers := [finalizerName]\<rparr>)
                  \<in> set (calls (Reconcile scenario_A))"
    by (simp add: reconcile_defs scenario_defs)
  have read: "get_res scenario_B = Inr (launched_object ''pending'') \<and>
              InstanceID (Status (launched_object ''pending'')) \<noteq> ''''"
    by (simp add: scenario_defs)
  show ?thesis
    using called read create_only_without_instance_id [of scenario_A]
      create_only_without_instance_id [of scenario_B]
    by blast
qed

subsection \<open>Deleting\<close>

text \<open>
  C6. Deletion has been requested and the terminate call fails. The invocation returns
  the terminate error with \<open>Requeue = true\<close>, makes no write at all (its calls are the
  read and the terminate call), and leaves the object, its finalizers included, as read.
\<close>

theorem terminate_failure_keeps_finalizers:
  assumes "get_res e = Inr ob" and "\<not> IsZero (DeletionTimestamp ob)"
    and "delete_res e ob = Some x"
  shows "err (Reconcile e) = Some x \<and>
         result (Reconcile e) = \<lparr>Requeue = True, RequeueAfter = 0\<rparr> \<and>
         calls (Reconcile e) = [EvGet, EvDelete ob] \<and>
         writes (calls (Reconcile e)) = [] \<and>
         Finalizers (object (Reconcile e)) = Finalizers ob \<and>
         object (Reconcile e) = ob"
proof -
  have "Reconcile e = reconcile_deleting e ob"
    using assms(1,2) by (rule Reconcile_deleting)
  then show ?thesis
    using assms(3) by (simp add: reconcile_deleting_def writes_def)
qed

text \<open>Scenario D with a provider whose terminate call times out.\<close>

theorem terminate_failure_keeps_finalizers_witness:
  "get_res (scenario_D\<lparr>delete_res := \<lambda>_. Some (OtherError ''timeout'')\<rparr>) =
     Inr ((launched_object ''running'')\<lparr>DeletionTimestamp := Some 1761868800\<rparr>) \<and>
   \<not> IsZero (DeletionTimestamp
       ((launched_object ''running'')\<lparr>DeletionTimestamp := Some 1761868800\<rparr>)) \<and>
   err (Reconcile (scenario_D\<lparr>delete_res := \<lambda>_. Some (OtherError ''timeout'')\<rparr>)) =
     Some (OtherError ''timeout'') \<and>
   Requeue (result (Reconcile (scenario_D\<lparr>delete_res := \<lambda>_. Some (OtherError ''timeout'')\<rparr>))) \<and>
   writes (calls (Reconcile (scenario_D\<lparr>delete_res := \<lambda>_. Some (OtherError ''timeout'')\<rparr>))) = [] \<and>
   Finalizers (object (Reconcile (scenario_D\<lparr>delete_res := \<lambda>_. Some (OtherError ''timeout'')\<rparr>))) =
     [finalizerName]"
  using terminate_failure_keeps_finalizers
      [of "scenario_D\<lparr>delete_res := \<lambda>_. Some (OtherError ''timeout'')\<rparr>"
        "(launched_object ''running'')\<lparr>DeletionTimestamp := Some 1761868800\<rparr>"
        "OtherError ''timeout''"]
  by (simp add: scenario_defs)

subsection \<open>The spec is never written\<close>

text \<open>
  C9. In any invocation, whatever the collaborators answer: when the read succeeds, the
  object in memory at the return has the spec that was read, and so has every object
  handed to terminate, describe, create, or submitted to a write; when the read fails
  (the object is absent, or the read errs) the read is the only call.
\<close>

theorem spec_never_mutated:
  "(\<forall>ob. get_res e = Inr ob \<longrightarrow>
      Spec (object (Reconcile e)) = Spec ob \<and>
      (\<forall>ev \<in> set (calls (Reconcile e)). \<forall>w \<in> set (submitted ev). Spec w = Spec ob)) \<and>
   (\<forall>er. get_res e = Inl er \<longrightarrow> calls (Reconcile e) = [EvGet])"
proof -
  have del: "Spec (object (reconcile_deleting e ob)) = Spec ob \<and>
      (\<forall>ev \<in> set (calls (reconcile_deleting e ob)). \<forall>w \<in> set (submitted ev). Spec w = Spec ob)"
    for ob
    by (simp add: reconcile_deleting_def RemoveFinalizer_def Let_def split: option.splits)
  have ex: "Spec (object (reconcile_existing e ob)) = Spec ob \<and>
      (\<forall>ev \<in> set (calls (reconcile_existing e ob)). \<forall>w \<in> set (submitted ev). Spec w = Spec ob)"
    for ob
    by (simp add: reconcile_existing_def Let_def split: option.splits prod.splits)
  have prov: "Spec (object (reconcile_provisioning e ob)) = Spec ob \<and>
      (\<forall>ev \<in> set (calls (reconcile_provisioning e ob)). \<forall>w \<in> set (submitted ev). Spec w = Spec ob)"
    for ob
    by (simp add: reconcile_provisioning_def Let_def split: option.splits sum.splits)
  show ?thesis
    using del ex prov by (simp add: Reconcile_def)
qed

text \<open>Scenario A, which makes two writes, and an absent object.\<close>

theorem spec_never_mutated_witness:
  "get_res scenario_A = Inr fresh_object \<and>
   Spec (object (Reconcile scenario_A)) = Spec fresh_object \<and>
   EvStatusUpdate (launched_object ''pending'') None \<in> set (calls (Reconcile scenario_A)) \<and>
   Spec (launched_object ''pending'') = Spec fresh_object \<and>
   length (writes (calls (Reconcile scenario_A))) = 2 \<and>
   calls (Reconcile (scenario_A\<lparr>get_res := Inl NotFound\<rparr>)) = [EvGet]"
proof -
  have run: "EvStatusUpdate (launched_object ''pending'') None \<in> set (calls (Reconcile scenario_A)) \<and>
      length (writes (calls (Reconcile scenario_A))) = 2"
    by (simp add: reconcile_defs scenario_defs)
  have read: "get_res scenario_A = Inr fresh_object \<and>
      get_res (scenario_A\<lparr>get_res := Inl NotFound\<rparr>) = Inl NotFound"
    by (simp add: scenario_defs)
  have sub: "launched_object ''pending'' \<in>
      set (submitted (EvStatusUpdate (launched_object ''pending'') None))"
    by simp
  have "Spec (launched_object ''pending'') = Spec fresh_object"
    using run read sub spec_never_mutated [of scenario_A] by blast
  then show ?thesis
    using run read spec_never_mutated [of scenario_A]
      spec_never_mutated [of "scenario_A\<lparr>get_res := Inl NotFound\<rparr>"]
    by blast
qed

end
